theory Spec2Isabelle
  imports Main
begin

section \<open>The http.server module of bettercap (modules/http\_server.go)\<close>

text \<open>
  The module is one Go file. Everything it calls outside that file is an input of the
  model: the parameter store, path expansion, the certificate primitives, the two serve
  entry points and the shutdown call of \<^verbatim>\<open>net/http\<close> are fields of an
  environment record, and every call with an effect outside the module is written to a
  trace of events, in program order.
\<close>

subsection \<open>Data\<close>

text \<open>
  A Go \<^verbatim>\<open>error\<close>. \<open>ErrAlreadyStarted\<close> and \<open>ErrServerClosed\<close> are the values the
  file returns or compares with by name, \<open>ErrNotExist\<close> is the error \<^verbatim>\<open>os.Stat\<close> gives
  for a path that does not exist (the one \<^verbatim>\<open>os.IsNotExist\<close> recognises); any other
  error carries its message.
\<close>

datatype error = ErrAlreadyStarted | ErrServerClosed | ErrNotExist | Err string

text \<open>The four fields of \<^verbatim>\<open>*http.Request\<close> that the handler reads.\<close>

record request =
  RemoteAddr :: string
  Method :: string
  Host :: string
  URL_Path :: string

text \<open>
  The value stored in \<^verbatim>\<open>server.Handler\<close>: the router built by Configure, a mux with
  the single pattern \<^verbatim>\<open>/\<close> whose closure captures a file server rooted at the given path.
\<close>

datatype handler = Router string

text \<open>
  The \<^verbatim>\<open>http.Server\<close> object behind the pointer \<^verbatim>\<open>httpd.server\<close>. The pointer is
  never nil and never copied, so the object is kept inside the module together with its
  identity \<open>oid\<close>: two server values are the same Go object exactly when their \<open>oid\<close>s are
  equal. \<^verbatim>\<open>&http.Server{}\<close> takes the next unused identity.
\<close>

record http_Server =
  oid :: nat
  Handler :: "handler option"
  Addr :: string

text \<open>
  The struct \<^verbatim>\<open>HttpServer\<close>. Of the embedded \<^verbatim>\<open>session.SessionModule\<close> only the
  running flag is state of the module; its parameter table is read through the environment.
\<close>

record HttpServer =
  Started :: bool
  server :: http_Server
  certFile :: string
  keyFile :: string

text \<open>A \<^verbatim>\<open>time.Duration\<close> counts nanoseconds.\<close>

type_synonym Duration = int

definition Second :: Duration where
  "Second = 1000000000"

text \<open>Calls that leave the module, as they appear in the trace.\<close>

datatype 'cfg event =
    LogInfo string "string list"
  | LogDebug string 'cfg
  | Call_Generate 'cfg string string
  | Call_ListenAndServe nat
  | Call_ListenAndServeTLS nat string string
  | Call_Shutdown nat Duration
  | Call_cancel Duration
  | Call_FileServer_ServeHTTP string request

type_synonym files = "string \<Rightarrow> string option"

text \<open>
  What lies outside the module and can change: the files on disk, the trace, the number of
  \<^verbatim>\<open>http.Server\<close> objects allocated so far, and the value the process panicked with, if
  it did.
\<close>

record 'cfg world =
  files :: files
  events :: "'cfg event list"
  allocated :: nat
  crashed :: "error option"

text \<open>
  The collaborators. \<open>'cfg\<close> is \<^verbatim>\<open>tls.CertConfig\<close>, which the file only passes on.
  \<open>Stat\<close> is the error of \<^verbatim>\<open>os.Stat\<close> on a path, given the files on disk: it is
  the operating system's answer, which also depends on directories and permissions, so an
  absent file may give \<open>ErrNotExist\<close> or another error. \<open>Generate\<close> gives the returned
  error and the files it leaves behind; the serve entry points and \<open>Shutdown\<close> give the
  error they return. \<open>StopIdle\<close> is what \<^verbatim>\<open>SetRunning(false, ...)\<close> answers on a module
  that is not running.
\<close>

record 'cfg env =
  StringParam :: "string \<Rightarrow> error + string"
  IntParam :: "string \<Rightarrow> error + int"
  Expand :: "string \<Rightarrow> error + string"
  Stat :: "files \<Rightarrow> string \<Rightarrow> error option"
  CertConfigFromModule :: "string \<Rightarrow> error + 'cfg"
  Generate :: "'cfg \<Rightarrow> string \<Rightarrow> string \<Rightarrow> files \<Rightarrow> error option \<times> files"
  ListenAndServe :: "http_Server \<Rightarrow> error option"
  ListenAndServeTLS :: "http_Server \<Rightarrow> string \<Rightarrow> string \<Rightarrow> error option"
  Shutdown :: "http_Server \<Rightarrow> Duration \<Rightarrow> error option"
  StopIdle :: "error option"
  Green :: "string \<Rightarrow> string"
  Bold :: "string \<Rightarrow> string"

definition emit :: "'cfg event \<Rightarrow> 'cfg world \<Rightarrow> 'cfg world" where
  "emit e w = w\<lparr>events := events w @ [e]\<rparr>"

subsection \<open>Library functions used by the file\<close>

text \<open>\<^verbatim>\<open>os.IsNotExist(err)\<close>: false for \<^verbatim>\<open>nil\<close> and for any error but "does not exist".\<close>

definition IsNotExist :: "error option \<Rightarrow> bool" where
  "IsNotExist err = (err = Some ErrNotExist)"

text \<open>
  \<^verbatim>\<open>fs.Exists\<close> of the islazy library:
  \<^verbatim>\<open>if _, err := os.Stat(path); os.IsNotExist(err) { return false }; return true\<close>.
  It answers true whenever \<^verbatim>\<open>os.Stat\<close> succeeds or fails for any other reason than
  "does not exist", also on a path where no file is.
\<close>

definition Exists :: "'cfg env \<Rightarrow> 'cfg world \<Rightarrow> string \<Rightarrow> bool" where
  "Exists env w p = (if IsNotExist (Stat env (files w) p) then False else True)"

text \<open>
  \<^verbatim>\<open>strings.Split(s, sep)\<close> for a separator of one byte: the pieces between the
  separators, one piece more than there are separators.
\<close>

fun Split :: "string \<Rightarrow> char \<Rightarrow> string list" where
  "Split [] sep = [[]]"
| "Split (c # cs) sep =
     (if c = sep then [] # Split cs sep
      else (case Split cs sep of [] \<Rightarrow> [[c]] | x # xs \<Rightarrow> (c # x) # xs))"

text \<open>
  \<^verbatim>\<open>%d\<close> of \<^verbatim>\<open>fmt.Sprintf\<close>: decimal digits, with a minus sign below zero.
  \<open>digit\<close> is only applied to numbers below ten.
\<close>

definition digit :: "nat \<Rightarrow> char" where
  "digit n = ''0123456789'' ! n"

fun digits :: "nat \<Rightarrow> string" where
  "digits n =
     (if n < 10 then [digit n]
      else digits (n div 10) @ [digit (n mod 10)])"

definition Sprintf_d :: "int \<Rightarrow> string" where
  "Sprintf_d i = (if i < 0 then CHR ''-'' # digits (nat (- i)) else digits (nat i))"

subsection \<open>session.SessionModule\<close>

text \<open>
  Modelled from the spec: \<^verbatim>\<open>SessionModule.Running\<close> is not in the source file. The
  spec's module state is Idle or Running, held in "the single mutable running flag".
\<close>

definition Running :: "HttpServer \<Rightarrow> bool" where
  "Running httpd = Started httpd"

text \<open>
  Modelled from the spec: \<^verbatim>\<open>SessionModule.SetRunning\<close> is not in the source file. The
  spec: a Start observed while Running is rejected with the already-started error and
  without side effects; a Stop observed while Idle is rejected or is a no-op, the same way
  every time (the field \<open>StopIdle\<close>); otherwise the flag flips first and then the callback
  runs. The callback of Start runs as a background activity and the one of Stop in the
  caller; here both run to their end at the point where they are launched.
\<close>

definition SetRunning ::
  "'cfg env \<Rightarrow> bool \<Rightarrow> (HttpServer \<Rightarrow> 'cfg world \<Rightarrow> 'cfg world) \<Rightarrow>
   HttpServer \<Rightarrow> 'cfg world \<Rightarrow> error option \<times> HttpServer \<times> 'cfg world" where
  "SetRunning env running cb httpd w =
     (if running = Running httpd then
        (if running then (Some ErrAlreadyStarted, httpd, w) else (StopIdle env, httpd, w))
      else
        (let httpd' = httpd\<lparr>Started := running\<rparr>
         in (None, httpd', cb httpd' w)))"

subsection \<open>The module\<close>

text \<open>
  \<^verbatim>\<open>NewHttpServer\<close>: a module that is not running, with a new server object and both
  path fields empty. The parameters and the two command handlers it registers live in the
  session and reach the module through the environment.
\<close>

definition NewHttpServer :: "'cfg world \<Rightarrow> HttpServer \<times> 'cfg world" where
  "NewHttpServer w =
     (\<lparr>Started = False,
       server = \<lparr>oid = allocated w, Handler = None, Addr = []\<rparr>,
       certFile = [],
       keyFile = []\<rparr>,
      w\<lparr>allocated := Suc (allocated w)\<rparr>)"

definition isTLS :: "HttpServer \<Rightarrow> bool" where
  "isTLS httpd = (certFile httpd \<noteq> [] \<and> keyFile httpd \<noteq> [])"

text \<open>
  The closure registered for the pattern \<^verbatim>\<open>/\<close>: one \<^verbatim>\<open>log.Info\<close>, then the file server
  rooted at \<open>path\<close> gets the request. \<open>Split\<close> returns at least one piece (lemma
  \<open>Split_nonempty\<close> below), so the index 0 is in range, as it is in Go.
\<close>

definition HandlerFunc :: "'cfg env \<Rightarrow> string \<Rightarrow> request \<Rightarrow> 'cfg world \<Rightarrow> 'cfg world" where
  "HandlerFunc env path r w =
     (let w1 = emit (LogInfo ''(%s) %s %s %s%s''
                  [Green env ''httpd'',
                   Bold env (Split (RemoteAddr r) CHR '':'' ! 0),
                   Method r, Host r, URL_Path r]) w
      in emit (Call_FileServer_ServeHTTP path r) w1)"

definition Configure ::
  "'cfg env \<Rightarrow> HttpServer \<Rightarrow> 'cfg world \<Rightarrow> error option \<times> HttpServer \<times> 'cfg world" where
  "Configure env httpd w =
     (if Running httpd then (Some ErrAlreadyStarted, httpd, w)
      else
      (case StringParam env ''http.server.path'' of
        Inl err \<Rightarrow> (Some err, httpd, w)
      | Inr path \<Rightarrow>
      (let httpd1 = httpd\<lparr>server := (server httpd)\<lparr>Handler := Some (Router path)\<rparr>\<rparr> in
      (case StringParam env ''http.server.address'' of
        Inl err \<Rightarrow> (Some err, httpd1, w)
      | Inr address \<Rightarrow>
      (case IntParam env ''http.server.port'' of
        Inl err \<Rightarrow> (Some err, httpd1, w)
      | Inr port \<Rightarrow>
      (let httpd2 = httpd1\<lparr>server :=
                      (server httpd1)\<lparr>Addr := address @ '':'' @ Sprintf_d port\<rparr>\<rparr> in
      (case StringParam env ''http.server.certificate'' of
        Inl err \<Rightarrow> (Some err, httpd2, w)
      | Inr certFile0 \<Rightarrow>
      (case Expand env certFile0 of
        Inl err \<Rightarrow> (Some err, httpd2, w)
      | Inr certFile' \<Rightarrow>
      (case StringParam env ''http.server.key'' of
        Inl err \<Rightarrow> (Some err, httpd2, w)
      | Inr keyFile0 \<Rightarrow>
      (case Expand env keyFile0 of
        Inl err \<Rightarrow> (Some err, httpd2, w)
      | Inr keyFile' \<Rightarrow>
      (if certFile' \<noteq> [] \<and> keyFile' \<noteq> [] then
        (if \<not> Exists env w certFile' \<or> \<not> Exists env w keyFile' then
          (case CertConfigFromModule env ''http.server'' of
            Inl err \<Rightarrow> (Some err, httpd2, w)
          | Inr cfg \<Rightarrow>
            (let w1 = emit (LogDebug ''%+v'' cfg) w;
                 w2 = emit (LogInfo ''Generating server TLS key to %s'' [keyFile']) w1;
                 w3 = emit (LogInfo ''Generating server TLS certificate to %s'' [certFile']) w2;
                 w4 = emit (Call_Generate cfg certFile' keyFile') w3
             in (case Generate env cfg certFile' keyFile' (files w4) of
                   (Some err, fs) \<Rightarrow> (Some err, httpd2, w4\<lparr>files := fs\<rparr>)
                 | (None, fs) \<Rightarrow>
                     (None, httpd2\<lparr>certFile := certFile', keyFile := keyFile'\<rparr>,
                      w4\<lparr>files := fs\<rparr>))))
         else
          (let w1 = emit (LogInfo ''loading server TLS key from %s'' [keyFile']) w;
               w2 = emit (LogInfo ''loading server TLS certificate from %s'' [certFile']) w1
           in (None, httpd2\<lparr>certFile := certFile', keyFile := keyFile'\<rparr>, w2)))
       else (None, httpd2\<lparr>certFile := certFile', keyFile := keyFile'\<rparr>, w))))))))))))"

text \<open>
  The first half of the callback of Start: the log line and the serve call, chosen by
  \<open>isTLS\<close>, with the error the blocking call returns.
\<close>

definition serve :: "'cfg env \<Rightarrow> HttpServer \<Rightarrow> 'cfg world \<Rightarrow> error option \<times> 'cfg world" where
  "serve env httpd w =
     (if isTLS httpd then
        (let w1 = emit (LogInfo ''HTTPS server starting on https://%s'' [Addr (server httpd)]) w
         in (ListenAndServeTLS env (server httpd) (certFile httpd) (keyFile httpd),
             emit (Call_ListenAndServeTLS (oid (server httpd)) (certFile httpd) (keyFile httpd)) w1))
      else
        (let w1 = emit (LogInfo ''HTTP server starting on http://%s'' [Addr (server httpd)]) w
         in (ListenAndServe env (server httpd),
             emit (Call_ListenAndServe (oid (server httpd))) w1)))"

text \<open>The callback of Start: a panic is recorded in \<open>crashed\<close>.\<close>

definition start_worker :: "'cfg env \<Rightarrow> HttpServer \<Rightarrow> 'cfg world \<Rightarrow> 'cfg world" where
  "start_worker env httpd w =
     (case serve env httpd w of
        (err, w1) \<Rightarrow>
          if err \<noteq> None \<and> err \<noteq> Some ErrServerClosed then w1\<lparr>crashed := err\<rparr> else w1)"

definition Start ::
  "'cfg env \<Rightarrow> HttpServer \<Rightarrow> 'cfg world \<Rightarrow> error option \<times> HttpServer \<times> 'cfg world" where
  "Start env httpd w =
     (case Configure env httpd w of
        (Some err, httpd', w') \<Rightarrow> (Some err, httpd', w')
      | (None, httpd', w') \<Rightarrow> SetRunning env True (start_worker env) httpd' w')"

text \<open>
  The callback of Stop: a context with a timeout of 60 seconds, the deferred \<^verbatim>\<open>cancel\<close>,
  and \<^verbatim>\<open>Shutdown\<close>, whose returned error is not looked at.
\<close>

definition stop_worker :: "'cfg env \<Rightarrow> HttpServer \<Rightarrow> 'cfg world \<Rightarrow> 'cfg world" where
  "stop_worker env httpd w =
     (let ctx = 60 * Second;
          (_ :: error option) = Shutdown env (server httpd) ctx;
          w1 = emit (Call_Shutdown (oid (server httpd)) ctx) w
      in emit (Call_cancel ctx) w1)"

definition Stop ::
  "'cfg env \<Rightarrow> HttpServer \<Rightarrow> 'cfg world \<Rightarrow> error option \<times> HttpServer \<times> 'cfg world" where
  "Stop env httpd w = SetRunning env False (stop_worker env) httpd w"

text \<open>
  The two commands the module registers, \<^verbatim>\<open>http.server on\<close> and
  \<^verbatim>\<open>http.server off\<close>: their handlers call Start and Stop on the one module. A session
  is a list of commands, each run against the parameter store and the collaborators of its
  moment.
\<close>

datatype command = On | Off

definition exec ::
  "'cfg env \<Rightarrow> command \<Rightarrow> HttpServer \<times> 'cfg world \<Rightarrow> HttpServer \<times> 'cfg world" where
  "exec env c s =
     (case c of
        On \<Rightarrow> snd (Start env (fst s) (snd s))
      | Off \<Rightarrow> snd (Stop env (fst s) (snd s)))"

fun run ::
  "('cfg env \<times> command) list \<Rightarrow> HttpServer \<times> 'cfg world \<Rightarrow> HttpServer \<times> 'cfg world" where
  "run [] s = s"
| "run ((env, c) # cs) s = run cs (exec env c s)"

subsection \<open>Vocabulary of the statements\<close>

text \<open>The server object a call in the trace is made on.\<close>

fun target :: "'cfg event \<Rightarrow> nat option" where
  "target (Call_ListenAndServe a) = Some a"
| "target (Call_ListenAndServeTLS a c k) = Some a"
| "target (Call_Shutdown a d) = Some a"
| "target e = None"

text \<open>The calls of the two serve entry points.\<close>

fun serve_call :: "'cfg event \<Rightarrow> bool" where
  "serve_call (Call_ListenAndServe a) = True"
| "serve_call (Call_ListenAndServeTLS a c k) = True"
| "serve_call e = False"


text \<open>
  The spec's reading of the logged client address, "host portion only, stripped of any
  port suffix": the address without its last colon and what follows it.
\<close>

definition strip_port_suffix :: "string \<Rightarrow> string" where
  "strip_port_suffix s =
     (if CHR '':'' \<in> set s then rev (tl (dropWhile (\<lambda>c. c \<noteq> CHR '':'') (rev s))) else s)"

subsection \<open>Example inputs\<close>

text \<open>A parameter store holding the listed values; reading any other name fails.\<close>

definition store :: "(string \<times> string) list \<Rightarrow> string \<Rightarrow> error + string" where
  "store kvs name = (case map_of kvs name of None \<Rightarrow> Inl (Err name) | Some v \<Rightarrow> Inr v)"

text \<open>
  Collaborators that all succeed: port 8080, paths expand to themselves, \<^verbatim>\<open>os.Stat\<close>
  succeeds on the files that are there and reports the others as not existing, generation
  writes both files, the serve calls return \<^verbatim>\<open>http.ErrServerClosed\<close>.
\<close>

definition example_env :: "(string \<times> string) list \<Rightarrow> unit env" where
  "example_env kvs =
     \<lparr>StringParam = store kvs,
      IntParam = (\<lambda>_. Inr 8080),
      Expand = Inr,
      Stat = (\<lambda>fs p. if fs p = None then Some ErrNotExist else None),
      CertConfigFromModule = (\<lambda>_. Inr ()),
      Generate = (\<lambda>cfg c k fs. (None, fs(c \<mapsto> ''CERT'', k \<mapsto> ''KEY''))),
      ListenAndServe = (\<lambda>_. Some ErrServerClosed),
      ListenAndServeTLS = (\<lambda>_ _ _. Some ErrServerClosed),
      Shutdown = (\<lambda>_ _. None),
      StopIdle = None,
      Green = id,
      Bold = id\<rparr>"



definition plain_params :: "(string \<times> string) list" where
  "plain_params =
     [(''http.server.path'', ''.''), (''http.server.address'', ''127.0.0.1''),
      (''http.server.certificate'', []), (''http.server.key'', [])]"

definition tls_params :: "(string \<times> string) list" where
  "tls_params =
     [(''http.server.path'', ''.''), (''http.server.address'', ''127.0.0.1''),
      (''http.server.certificate'', ''c.pem''), (''http.server.key'', ''k.pem'')]"

definition world0 :: "unit world" where
  "world0 = \<lparr>files = Map.empty, events = [], allocated = 0, crashed = None\<rparr>"

definition certs_world :: "unit world" where
  "certs_world = world0\<lparr>files := [''c.pem'' \<mapsto> ''CERT'', ''k.pem'' \<mapsto> ''KEY'']\<rparr>"

definition idle0 :: HttpServer where
  "idle0 = \<lparr>Started = False, server = \<lparr>oid = 0, Handler = None, Addr = []\<rparr>,
            certFile = [], keyFile = []\<rparr>"

definition running0 :: HttpServer where
  "running0 = idle0\<lparr>Started := True\<rparr>"

definition ipv6_request :: request where
  "ipv6_request =
     \<lparr>RemoteAddr = ''[::1]:54321'', Method = ''GET'', Host = ''[::1]:8080'',
      URL_Path = ''/index.html''\<rparr>"

section \<open>Properties\<close>

subsection \<open>Evaluation and library facts\<close>

declare digits.simps [simp del]

lemmas ex_defs = example_env_def store_def plain_params_def tls_params_def world0_def
  certs_world_def idle0_def running0_def

lemmas run_defs = Configure_def Start_def Stop_def SetRunning_def start_worker_def
  stop_worker_def serve_def isTLS_def Running_def Exists_def IsNotExist_def emit_def Let_def

lemma Split_nonempty: "Split s sep \<noteq> []"
  by (induction s) (auto split: list.splits)

lemma Split_0: "Split s sep ! 0 = takeWhile (\<lambda>c. c \<noteq> sep) s"
  by (induction s) (auto split: list.splits simp: Split_nonempty)

text \<open>
  The closure adds exactly two events, the log line first: the line carries the remote
  address up to its first colon, the method, the host header and the path, and the file
  server receives the request as it came.
\<close>

lemma HandlerFunc_events:
  "events (HandlerFunc env path r w) =
     events w @
     [LogInfo ''(%s) %s %s %s%s''
        [Green env ''httpd'', Bold env (takeWhile (\<lambda>c. c \<noteq> CHR '':'') (RemoteAddr r)),
         Method r, Host r, URL_Path r],
      Call_FileServer_ServeHTTP path r]"
  by (simp add: HandlerFunc_def emit_def Split_0)

subsection \<open>Certificate provisioning\<close>




subsection \<open>TLS mode\<close>

lemma Configure_serve_calls:
  "filter serve_call (events (snd (snd (Configure env httpd w)))) = filter serve_call (events w)"
  unfolding Configure_def
  by (auto simp: Let_def emit_def split: sum.splits prod.splits option.splits)

lemma Configure_ok_idle:
  "Configure env httpd w = (None, httpd', w') \<Longrightarrow> \<not> Running httpd'"
  unfolding Configure_def
  by (auto simp: Let_def Running_def split: sum.splits prod.splits option.splits if_splits)

text \<open>
  Claim C2. \<open>isTLS\<close> holds exactly when the stored certificate path and the stored key
  path are both non-empty; and a Start that succeeds makes exactly one serve call, the
  TLS entry point with the stored paths when \<open>isTLS\<close> holds of the module it leaves behind
  and the plain entry point otherwise.
\<close>

theorem Start_serves_by_isTLS:
  "isTLS httpd = (certFile httpd \<noteq> [] \<and> keyFile httpd \<noteq> [])
   \<and> (Start env httpd w = (None, httpd', w') \<longrightarrow>
        filter serve_call (events w') =
          filter serve_call (events w) @
          [if isTLS httpd'
           then Call_ListenAndServeTLS (oid (server httpd')) (certFile httpd') (keyFile httpd')
           else Call_ListenAndServe (oid (server httpd'))])"
proof (intro conjI impI)
  show "isTLS httpd = (certFile httpd \<noteq> [] \<and> keyFile httpd \<noteq> [])"
    by (simp add: isTLS_def)
next
  assume ok: "Start env httpd w = (None, httpd', w')"
  obtain e m1 w1 where c: "Configure env httpd w = (e, m1, w1)"
    by (cases "Configure env httpd w") auto
  with ok have e: "e = None"
    by (auto simp: Start_def split: option.splits)
  from c e have idle: "\<not> Running m1"
    by (auto dest: Configure_ok_idle)
  have ev: "filter serve_call (events w1) = filter serve_call (events w)"
    using Configure_serve_calls [of env httpd w] c by simp
  from ok c e idle have w': "w' = start_worker env httpd' w1"
    by (auto simp: Start_def SetRunning_def Let_def)
  show "filter serve_call (events w') =
          filter serve_call (events w) @
          [if isTLS httpd'
           then Call_ListenAndServeTLS (oid (server httpd')) (certFile httpd') (keyFile httpd')
           else Call_ListenAndServe (oid (server httpd'))]"
    unfolding w' using ev
    by (auto simp: start_worker_def serve_def Let_def emit_def split: prod.splits)
qed

theorem Start_serves_by_isTLS_witness:
  "Start (example_env plain_params) idle0 world0 =
     (None,
      \<lparr>Started = True,
       server = \<lparr>oid = 0, Handler = Some (Router ''.''), Addr = ''127.0.0.1:8080''\<rparr>,
       certFile = [], keyFile = []\<rparr>,
      world0\<lparr>events :=
        [LogInfo ''HTTP server starting on http://%s'' [''127.0.0.1:8080''],
         Call_ListenAndServe 0]\<rparr>)
   \<and> filter serve_call (events (snd (snd (Start (example_env plain_params) idle0 world0)))) =
       [Call_ListenAndServe 0]
   \<and> filter serve_call (events (snd (snd (Start (example_env tls_params) idle0 certs_world)))) =
       [Call_ListenAndServeTLS 0 ''c.pem'' ''k.pem'']"
proof -
  have plain: "Start (example_env plain_params) idle0 world0 =
     (None,
      \<lparr>Started = True,
       server = \<lparr>oid = 0, Handler = Some (Router ''.''), Addr = ''127.0.0.1:8080''\<rparr>,
       certFile = [], keyFile = []\<rparr>,
      world0\<lparr>events :=
        [LogInfo ''HTTP server starting on http://%s'' [''127.0.0.1:8080''],
         Call_ListenAndServe 0]\<rparr>)"
    by (simp add: run_defs ex_defs Sprintf_d_def digits.simps digit_def)
  have tls: "Start (example_env tls_params) idle0 certs_world =
     (None,
      \<lparr>Started = True,
       server = \<lparr>oid = 0, Handler = Some (Router ''.''), Addr = ''127.0.0.1:8080''\<rparr>,
       certFile = ''c.pem'', keyFile = ''k.pem''\<rparr>,
      certs_world\<lparr>events :=
        [LogInfo ''loading server TLS key from %s'' [''k.pem''],
         LogInfo ''loading server TLS certificate from %s'' [''c.pem''],
         LogInfo ''HTTPS server starting on https://%s'' [''127.0.0.1:8080''],
         Call_ListenAndServeTLS 0 ''c.pem'' ''k.pem'']\<rparr>)"
    by (simp add: run_defs ex_defs Sprintf_d_def digits.simps digit_def)
  from Start_serves_by_isTLS [THEN conjunct2, rule_format, OF plain]
       Start_serves_by_isTLS [THEN conjunct2, rule_format, OF tls]
  show ?thesis
    unfolding plain tls by (simp add: isTLS_def world0_def certs_world_def)
qed

subsection \<open>Start and Configure on a running module\<close>

text \<open>
  Claim C3. On a running module Configure and Start both return the already-started
  error, and the module (address, handler, certificate and key path, running flag) and the
  world are what they were before the call.
\<close>

theorem running_rejects_Configure_and_Start:
  assumes "Running httpd"
  shows "Configure env httpd w = (Some ErrAlreadyStarted, httpd, w)
       \<and> Start env httpd w = (Some ErrAlreadyStarted, httpd, w)"
  using assms by (simp add: Configure_def Start_def)

theorem running_rejects_Configure_and_Start_witness:
  "Running running0
   \<and> Configure (example_env tls_params) running0 world0 = (Some ErrAlreadyStarted, running0, world0)
   \<and> Start (example_env tls_params) running0 world0 = (Some ErrAlreadyStarted, running0, world0)"
proof -
  have r: "Running running0"
    by (simp add: Running_def running0_def)
  from r running_rejects_Configure_and_Start [OF r] show ?thesis by simp
qed

subsection \<open>Configure failing on a parameter\<close>





subsection \<open>Errors of the serve call\<close>

text \<open>
  Claim C5. Whatever the blocking serve call returns, the callback of Start ends in one of
  two ways: when the call returns no error or \<^verbatim>\<open>http.ErrServerClosed\<close>, the callback
  returns and nothing is recorded as a failure; when it returns any other error, the
  callback panics with that error.
\<close>

theorem start_worker_panics:
  assumes "serve env httpd w = (err, w1)"
  shows "(err = None \<longrightarrow> start_worker env httpd w = w1)
       \<and> (err = Some ErrServerClosed \<longrightarrow> start_worker env httpd w = w1)
       \<and> (\<forall>e. err = Some e \<and> e \<noteq> ErrServerClosed \<longrightarrow>
             start_worker env httpd w = w1\<lparr>crashed := Some e\<rparr>)
       \<and> crashed w1 = crashed w"
  using assms by (auto simp: start_worker_def serve_def Let_def emit_def split: if_splits)

theorem start_worker_panics_witness:
  "serve (example_env plain_params) running0 world0 =
     (Some ErrServerClosed,
      world0\<lparr>events := [LogInfo ''HTTP server starting on http://%s'' [[]], Call_ListenAndServe 0]\<rparr>)
   \<and> crashed (start_worker (example_env plain_params) running0 world0) = None
   \<and> serve ((example_env plain_params)\<lparr>ListenAndServe := \<lambda>_. Some (Err ''bind: address already in use'')\<rparr>)
        running0 world0 =
     (Some (Err ''bind: address already in use''),
      world0\<lparr>events := [LogInfo ''HTTP server starting on http://%s'' [[]], Call_ListenAndServe 0]\<rparr>)
   \<and> crashed (start_worker ((example_env plain_params)\<lparr>ListenAndServe := \<lambda>_. Some (Err ''bind: address already in use'')\<rparr>)
        running0 world0) = Some (Err ''bind: address already in use'')"
proof -
  have closed: "serve (example_env plain_params) running0 world0 =
     (Some ErrServerClosed,
      world0\<lparr>events := [LogInfo ''HTTP server starting on http://%s'' [[]], Call_ListenAndServe 0]\<rparr>)"
    by (simp add: serve_def isTLS_def emit_def ex_defs)
  have busy: "serve ((example_env plain_params)\<lparr>ListenAndServe := \<lambda>_. Some (Err ''bind: address already in use'')\<rparr>)
        running0 world0 =
     (Some (Err ''bind: address already in use''),
      world0\<lparr>events := [LogInfo ''HTTP server starting on http://%s'' [[]], Call_ListenAndServe 0]\<rparr>)"
    by (simp add: serve_def isTLS_def emit_def ex_defs)
  from start_worker_panics [OF closed] start_worker_panics [OF busy] closed busy
  show ?thesis by (simp add: world0_def)
qed

subsection \<open>Stop\<close>

text \<open>
  Claim C6. Stop on a running module succeeds, leaves the module not running, and makes
  exactly two calls: \<open>Shutdown\<close> on the module's server object with a context whose timeout
  is 60 seconds (60 000 000 000 nanoseconds), and then, as the callback returns, the
  \<open>cancel\<close> of that context. No other call is made on the server, none that would close
  connections by force.
\<close>

theorem Stop_running:
  assumes "Running httpd"
  shows "Stop env httpd w =
         (None, httpd\<lparr>Started := False\<rparr>,
          w\<lparr>events := events w @
              [Call_Shutdown (oid (server httpd)) (60 * Second), Call_cancel (60 * Second)]\<rparr>)
       \<and> 60 * Second = 60000000000"
  using assms
  by (simp add: Stop_def SetRunning_def stop_worker_def Let_def emit_def Second_def)

theorem Stop_running_witness:
  "Running running0
   \<and> Stop (example_env plain_params) running0 world0 =
       (None, idle0,
        world0\<lparr>events := [Call_Shutdown 0 60000000000, Call_cancel 60000000000]\<rparr>)"
proof -
  have r: "Running running0"
    by (simp add: Running_def running0_def)
  from r Stop_running [OF r, of "example_env plain_params" world0] show ?thesis
    by (simp add: running0_def idle0_def world0_def)
qed

text \<open>
  Claim C10. If Stop returns an error, the module was not running and Stop changed
  nothing; on a running module Stop returns no error even when \<open>Shutdown\<close> returns one; and
  the outcome of Stop does not depend on what \<open>Shutdown\<close> returns.
\<close>

theorem Stop_error_only_when_idle:
  "(fst (Stop env httpd w) \<noteq> None \<longrightarrow> \<not> Running httpd \<and> snd (Stop env httpd w) = (httpd, w))
   \<and> (Running httpd \<and> Shutdown env (server httpd) (60 * Second) = Some err \<longrightarrow>
        fst (Stop env httpd w) = None)
   \<and> Stop (env\<lparr>Shutdown := sd\<rparr>) httpd w = Stop env httpd w"
  by (auto simp: Stop_def SetRunning_def stop_worker_def Let_def)

theorem Stop_error_only_when_idle_witness:
  "fst (Stop ((example_env plain_params)\<lparr>StopIdle := Some (Err ''already stopped'')\<rparr>) idle0 world0) =
     Some (Err ''already stopped'')
   \<and> \<not> Running idle0
   \<and> snd (Stop ((example_env plain_params)\<lparr>StopIdle := Some (Err ''already stopped'')\<rparr>) idle0 world0) =
       (idle0, world0)
   \<and> Running running0
   \<and> Shutdown ((example_env plain_params)\<lparr>Shutdown := \<lambda>_ _. Some (Err ''context deadline exceeded'')\<rparr>)
        (server running0) (60 * Second) = Some (Err ''context deadline exceeded'')
   \<and> fst (Stop ((example_env plain_params)\<lparr>Shutdown := \<lambda>_ _. Some (Err ''context deadline exceeded'')\<rparr>)
        running0 world0) = None"
proof -
  have rejected:
    "fst (Stop ((example_env plain_params)\<lparr>StopIdle := Some (Err ''already stopped'')\<rparr>) idle0 world0) =
       Some (Err ''already stopped'')"
    by (simp add: Stop_def SetRunning_def Running_def ex_defs)
  have r: "Running running0"
    by (simp add: Running_def running0_def)
  have sd: "Shutdown ((example_env plain_params)\<lparr>Shutdown := \<lambda>_ _. Some (Err ''context deadline exceeded'')\<rparr>)
        (server running0) (60 * Second) = Some (Err ''context deadline exceeded'')"
    by simp
  from Stop_error_only_when_idle
         [of "(example_env plain_params)\<lparr>StopIdle := Some (Err ''already stopped'')\<rparr>" idle0 world0]
       Stop_error_only_when_idle
         [where env = "(example_env plain_params)\<lparr>Shutdown := \<lambda>_ _. Some (Err ''context deadline exceeded'')\<rparr>"
            and httpd = running0 and w = world0 and err = "Err ''context deadline exceeded''"]
       rejected r sd
  show ?thesis by simp
qed

subsection \<open>The access log\<close>

text \<open>
  Claim C7 at one request. A client at the IPv6 address \<^verbatim>\<open>[::1]:54321\<close>: the log line
  carries \<^verbatim>\<open>[\<close> as the client address, the text before the first colon, where the
  address without its port suffix is \<^verbatim>\<open>[::1]\<close>.
\<close>

theorem HandlerFunc_ipv6_client:
  "events (HandlerFunc (example_env []) ''.'' ipv6_request world0) =
     [LogInfo ''(%s) %s %s %s%s'' [''httpd'', ''['', ''GET'', ''[::1]:8080'', ''/index.html''],
      Call_FileServer_ServeHTTP ''.'' ipv6_request]
   \<and> strip_port_suffix (RemoteAddr ipv6_request) = ''[::1]''"
  by (simp add: HandlerFunc_def example_env_def ipv6_request_def world0_def emit_def strip_port_suffix_def)

subsection \<open>The server object across restarts\<close>

lemma target_emit:
  "target ` set (events (emit e w)) = insert (target e) (target ` set (events w))"
  by (auto simp: emit_def)

lemma Configure_frame:
  "oid (server (fst (snd (Configure env httpd w)))) = oid (server httpd)
   \<and> allocated (snd (snd (Configure env httpd w))) = allocated w
   \<and> target ` set (events (snd (snd (Configure env httpd w)))) \<subseteq> insert None (target ` set (events w))"
  unfolding Configure_def
  by (auto simp: Let_def emit_def split: sum.splits prod.splits option.splits)

lemma Start_frame:
  "oid (server (fst (snd (Start env httpd w)))) = oid (server httpd)
   \<and> allocated (snd (snd (Start env httpd w))) = allocated w
   \<and> target ` set (events (snd (snd (Start env httpd w)))) \<subseteq>
       {None, Some (oid (server httpd))} \<union> target ` set (events w)"
proof -
  obtain e m1 w1 where c: "Configure env httpd w = (e, m1, w1)"
    by (cases "Configure env httpd w") auto
  from Configure_frame [of env httpd w] c
  have f: "oid (server m1) = oid (server httpd)" "allocated w1 = allocated w"
    "target ` set (events w1) \<subseteq> insert None (target ` set (events w))"
    by simp_all
  show ?thesis
  proof (cases e)
    case (Some err)
    with c f show ?thesis by (auto simp: Start_def)
  next
    case None
    with c f show ?thesis
      by (auto simp: Start_def SetRunning_def start_worker_def serve_def Let_def emit_def
          split: prod.splits if_splits)
  qed
qed

lemma Stop_frame:
  "oid (server (fst (snd (Stop env httpd w)))) = oid (server httpd)
   \<and> allocated (snd (snd (Stop env httpd w))) = allocated w
   \<and> target ` set (events (snd (snd (Stop env httpd w)))) \<subseteq>
       {None, Some (oid (server httpd))} \<union> target ` set (events w)"
  by (auto simp: Stop_def SetRunning_def stop_worker_def Let_def emit_def)

lemma exec_frame:
  "oid (server (fst (exec env c s))) = oid (server (fst s))
   \<and> allocated (snd (exec env c s)) = allocated (snd s)
   \<and> target ` set (events (snd (exec env c s))) \<subseteq>
       {None, Some (oid (server (fst s)))} \<union> target ` set (events (snd s))"
  using Start_frame [of env "fst s" "snd s"] Stop_frame [of env "fst s" "snd s"]
  by (cases c) (simp_all add: exec_def)

lemma union_chain: "A \<subseteq> K \<union> B \<Longrightarrow> B \<subseteq> K \<union> C \<Longrightarrow> A \<subseteq> K \<union> C"
  by blast

text \<open>
  Over any sequence of Start and Stop commands the module keeps the server object it was
  built with: the identity of its server object does not change, no server object is
  allocated, and every serve or shutdown call the commands make is made on that object.
\<close>

lemma run_keeps_server:
  "oid (server (fst (run cs s))) = oid (server (fst s))
   \<and> allocated (snd (run cs s)) = allocated (snd s)
   \<and> target ` set (events (snd (run cs s))) \<subseteq>
       {None, Some (oid (server (fst s)))} \<union> target ` set (events (snd s))"
proof (induction cs arbitrary: s)
  case Nil
  show ?case by auto
next
  case (Cons a cs)
  obtain env c where a: "a = (env, c)" by (cases a)
  define s1 where "s1 = exec env c s"
  have r: "run (a # cs) s = run cs s1"
    by (simp add: a s1_def)
  note step = exec_frame [of env c s, folded s1_def]
  note same = step [THEN conjunct1]
  note alloc = step [THEN conjunct2, THEN conjunct1]
  note calls = step [THEN conjunct2, THEN conjunct2]
  note ih1 = Cons.IH [of s1, THEN conjunct1]
  note ih2 = Cons.IH [of s1, THEN conjunct2, THEN conjunct1]
  note ih3 = Cons.IH [of s1, THEN conjunct2, THEN conjunct2]
  have c1: "oid (server (fst (run cs s1))) = oid (server (fst s))"
    using ih1 same by (rule trans)
  have c2: "allocated (snd (run cs s1)) = allocated (snd s)"
    using ih2 alloc by (rule trans)
  have c3: "target ` set (events (snd (run cs s1))) \<subseteq>
       {None, Some (oid (server (fst s)))} \<union> target ` set (events (snd s))"
    using ih3 [unfolded same] calls by (rule union_chain)
  show ?case
    unfolding r using c1 c2 c3 by (intro conjI)
qed

text \<open>
  Claim C8 at the sequence on, off, on. The claim has every Start create a server object
  and every Stop discard it. On a new module both serve calls and the shutdown between
  them are made on object 0, the one \<^verbatim>\<open>NewHttpServer\<close> made, and one object has
  been allocated at the end. \<^verbatim>\<open>net/http\<close> answers a serve call on a server
  that was shut down with \<^verbatim>\<open>http.ErrServerClosed\<close>, which the callback of Start lets
  pass: after the second Start the module is marked running and no failure is recorded.
\<close>

theorem restart_reuses_server:
  "NewHttpServer world0 = (idle0, world0\<lparr>allocated := 1\<rparr>)
   \<and> events (snd (run [(example_env plain_params, On), (example_env plain_params, Off),
                       (example_env plain_params, On)] (NewHttpServer world0))) =
       [LogInfo ''HTTP server starting on http://%s'' [''127.0.0.1:8080''],
        Call_ListenAndServe 0,
        Call_Shutdown 0 60000000000,
        Call_cancel 60000000000,
        LogInfo ''HTTP server starting on http://%s'' [''127.0.0.1:8080''],
        Call_ListenAndServe 0]
   \<and> allocated (snd (run [(example_env plain_params, On), (example_env plain_params, Off),
                          (example_env plain_params, On)] (NewHttpServer world0))) = 1
   \<and> ListenAndServe (example_env plain_params)
        (server (fst (run [(example_env plain_params, On), (example_env plain_params, Off),
                           (example_env plain_params, On)] (NewHttpServer world0)))) =
       Some ErrServerClosed
   \<and> Started (fst (run [(example_env plain_params, On), (example_env plain_params, Off),
                        (example_env plain_params, On)] (NewHttpServer world0))) = True
   \<and> crashed (snd (run [(example_env plain_params, On), (example_env plain_params, Off),
                        (example_env plain_params, On)] (NewHttpServer world0))) = None"
  by (simp add: NewHttpServer_def exec_def run_defs ex_defs Second_def Sprintf_d_def digits.simps digit_def)

subsection \<open>The stored certificate and key paths\<close>

text \<open>
  Claim C9. A Configure call that returns an error leaves the stored certificate path and
  key path as they were; a call that succeeds has read and expanded both parameters, and
  stores the two expanded paths.
\<close>

theorem Configure_error_keeps_paths:
  "(fst (Configure env httpd w) \<noteq> None \<longrightarrow>
      certFile (fst (snd (Configure env httpd w))) = certFile httpd
      \<and> keyFile (fst (snd (Configure env httpd w))) = keyFile httpd)
   \<and> (fst (Configure env httpd w) = None \<longrightarrow>
      (\<exists>c0 k0. StringParam env ''http.server.certificate'' = Inr c0
             \<and> Expand env c0 = Inr (certFile (fst (snd (Configure env httpd w))))
             \<and> StringParam env ''http.server.key'' = Inr k0
             \<and> Expand env k0 = Inr (keyFile (fst (snd (Configure env httpd w))))))"
  unfolding Configure_def
  by (auto simp: Let_def split: sum.splits prod.splits option.splits if_splits)

theorem Configure_error_keeps_paths_witness:
  "fst (Configure (example_env [(''http.server.path'', ''.''), (''http.server.address'', ''127.0.0.1''),
          (''http.server.certificate'', ''c.pem'')])
        (idle0\<lparr>certFile := ''a.pem'', keyFile := ''a.key''\<rparr>) world0) = Some (Err ''http.server.key'')
   \<and> certFile (fst (snd (Configure (example_env [(''http.server.path'', ''.''), (''http.server.address'', ''127.0.0.1''),
          (''http.server.certificate'', ''c.pem'')])
        (idle0\<lparr>certFile := ''a.pem'', keyFile := ''a.key''\<rparr>) world0))) = ''a.pem''
   \<and> keyFile (fst (snd (Configure (example_env [(''http.server.path'', ''.''), (''http.server.address'', ''127.0.0.1''),
          (''http.server.certificate'', ''c.pem'')])
        (idle0\<lparr>certFile := ''a.pem'', keyFile := ''a.key''\<rparr>) world0))) = ''a.key''
   \<and> fst (Configure (example_env tls_params) idle0 certs_world) = None
   \<and> Expand (example_env tls_params) ''c.pem'' =
       Inr (certFile (fst (snd (Configure (example_env tls_params) idle0 certs_world))))
   \<and> Expand (example_env tls_params) ''k.pem'' =
       Inr (keyFile (fst (snd (Configure (example_env tls_params) idle0 certs_world))))"
proof -
  have failed: "fst (Configure (example_env [(''http.server.path'', ''.''), (''http.server.address'', ''127.0.0.1''),
          (''http.server.certificate'', ''c.pem'')])
        (idle0\<lparr>certFile := ''a.pem'', keyFile := ''a.key''\<rparr>) world0) = Some (Err ''http.server.key'')"
    by (simp add: Configure_def Running_def ex_defs)
  have ok: "fst (Configure (example_env tls_params) idle0 certs_world) = None"
    by (simp add: Configure_def Running_def Exists_def IsNotExist_def emit_def ex_defs)
  have reads: "StringParam (example_env tls_params) ''http.server.certificate'' = Inr ''c.pem''"
    "StringParam (example_env tls_params) ''http.server.key'' = Inr ''k.pem''"
    by (simp_all add: ex_defs)
  from Configure_error_keeps_paths
         [of "example_env [(''http.server.path'', ''.''), (''http.server.address'', ''127.0.0.1''),
                (''http.server.certificate'', ''c.pem'')]"
             "idle0\<lparr>certFile := ''a.pem'', keyFile := ''a.key''\<rparr>" world0]
       Configure_error_keeps_paths [of "example_env tls_params" idle0 certs_world]
       failed ok reads
  show ?thesis by (auto simp: idle0_def)
qed

end
